theory Spec2Isabelle
  imports Complex_Main "HOL-Library.Sublist"
begin

section \<open>Python values and exceptions\<close>

text \<open>
  The arguments of \<open>MlModel\<close> are dynamically typed, and \<open>__verify_input\<close> inspects
  their types with \<open>isinstance\<close>. A Python value is therefore a tagged value. A finite
  \<open>float\<close> is read as the real number it denotes; the comparisons of the source are
  exact on those.
\<close>

datatype pyval =
    PNone
  | PBool bool
  | PInt int
  | PFloat real
  | PStr string
  | PList "pyval list"
  | PDict "(string \<times> pyval) list"

text \<open>
  The exceptions that reach the caller. \<open>ValueError\<close>, \<open>TypeError\<close> and
  \<open>FileNotFoundError\<close> are raised by \<open>model.py\<close> itself, \<open>KeyError\<close> by a failed
  subscript, \<open>NotFittedError\<close> and \<open>LibraryError\<close> only by the libraries.
  \<open>WriteError\<close> and \<open>CorruptArchive\<close> are the spec's names for the failures of saving
  and loading.
\<close>

datatype error =
    ValueError string
  | TypeError string
  | FileNotFoundError string
  | KeyError string
  | NotFittedError
  | LibraryError string
  | WriteError string
  | CorruptArchive string

fun is_TypeError :: "error + 'a \<Rightarrow> bool" where
  "is_TypeError (Inl (TypeError msg)) = True"
| "is_TypeError other = False"


section \<open>The external collaborators\<close>

text \<open>
  \<open>model.py\<close> forwards to \<open>os.path\<close>, pandas and scikit-learn. None of that code is
  part of the repository, so it is a parameter of every operation: a record of
  functions, one for each call the source makes. A call that may raise returns a sum;
  a call that may consult or advance state outside the program (the file system, the
  global random generator) takes that state, the world \<open>'w\<close>, and the ones that may
  advance it return the new one.

  \<open>'ds\<close> is the loaded data frame, \<open>'x\<close> a frame of feature columns (also the data
  handed to \<open>predict\<close>), \<open>'y\<close> a vector of labels (true or predicted), \<open>'c\<close> a
  classifier object and \<open>'r\<close> the report dictionary.
\<close>

record ('ds, 'x, 'y, 'c, 'r, 'w) library =
  isfile :: "string \<Rightarrow> 'w \<Rightarrow> bool"
  read_csv :: "string \<Rightarrow> 'w \<Rightarrow> error + 'ds"
  getitem_frame :: "'ds \<Rightarrow> pyval \<Rightarrow> error + 'x"
  getitem_series :: "'ds \<Rightarrow> pyval \<Rightarrow> error + 'y"
  train_test_split ::
    "'x \<Rightarrow> 'y \<Rightarrow> pyval \<Rightarrow> pyval \<Rightarrow> 'w \<Rightarrow> (error + ('x \<times> 'x \<times> 'y \<times> 'y)) \<times> 'w"
  RandomForestClassifier :: "(string \<times> pyval) list \<Rightarrow> error + 'c"
  SVC :: "(string \<times> pyval) list \<Rightarrow> error + 'c"
  GradientBoostingClassifier :: "(string \<times> pyval) list \<Rightarrow> error + 'c"
  get_params :: "'c \<Rightarrow> string list"
  fit :: "'c \<Rightarrow> 'x \<Rightarrow> 'y \<Rightarrow> 'w \<Rightarrow> (error + 'c) \<times> 'w"
  clf_predict :: "'c \<Rightarrow> 'x \<Rightarrow> 'w \<Rightarrow> (error + 'y) \<times> 'w"
  classification_report_text :: "'y \<Rightarrow> 'y \<Rightarrow> error + string"
  classification_report_dict :: "'y \<Rightarrow> 'y \<Rightarrow> error + 'r"


section \<open>The state\<close>

text \<open>The attributes of an \<open>MlModel\<close> instance, as \<open>__init__\<close> assigns them.\<close>

record ('ds, 'x, 'y, 'c, 'r) MlModel =
  filepath :: string
  type :: pyval
  target_column :: pyval
  features_list :: pyval
  test_size :: pyval
  kwargs :: "(string \<times> pyval) list"
  dataset :: 'ds
  x_train :: 'x
  x_test :: 'x
  y_train :: 'y
  y_test :: 'y
  model :: 'c
  y_pred :: "'y option"
  report :: "'r option"
  last_prediction :: "'y option"

text \<open>
  What surrounds the instance: the world of the libraries, the lines written by
  \<open>print\<close> and the messages passed to \<open>warnings.warn\<close>, oldest first.
\<close>

record 'w env =
  world :: 'w
  stdout :: "string list"
  warnings :: "string list"


section \<open>Helpers of the language\<close>

text \<open>\<open>sep.join(xs)\<close>.\<close>

fun join :: "string \<Rightarrow> string list \<Rightarrow> string" where
  "join sep [] = []"
| "join sep [x] = x"
| "join sep (x # y # ys) = x @ sep @ join sep (y # ys)"

text \<open>
  \<open>d[k] = v\<close> on a dictionary kept in insertion order: an existing key keeps its place,
  a new key goes to the end. \<open>d.update(other)\<close> stores the items of \<open>other\<close> in order.
\<close>

fun dict_setitem :: "(string \<times> pyval) list \<Rightarrow> string \<Rightarrow> pyval \<Rightarrow> (string \<times> pyval) list" where
  "dict_setitem [] k v = [(k, v)]"
| "dict_setitem ((k', v') # d) k v =
     (if k' = k then (k, v) # d else (k', v') # dict_setitem d k v)"

fun dict_update :: "(string \<times> pyval) list \<Rightarrow> (string \<times> pyval) list \<Rightarrow> (string \<times> pyval) list" where
  "dict_update d [] = d"
| "dict_update d ((k, v) # other) = dict_update (dict_setitem d k v) other"

fun isinstance_str :: "pyval \<Rightarrow> bool" where
  "isinstance_str (PStr s) = True"
| "isinstance_str v = False"

fun isinstance_list :: "pyval \<Rightarrow> bool" where
  "isinstance_list (PList vs) = True"
| "isinstance_list v = False"

fun isinstance_float :: "pyval \<Rightarrow> bool" where
  "isinstance_float (PFloat r) = True"
| "isinstance_float v = False"

fun list_items :: "pyval \<Rightarrow> pyval list" where
  "list_items (PList vs) = vs"
| "list_items v = []"

fun float_value :: "pyval \<Rightarrow> real" where
  "float_value (PFloat r) = r"
| "float_value v = 0"


section \<open>The operations of \<open>MlModel\<close>\<close>

text \<open>
  Modelled from the spec: the constant \<open>VALID_MODELS\<close> is imported from the package's
  \<open>__init__\<close>, which is not among the sources. The spec and the docstring of
  \<open>MlModel\<close> give the supported kinds as RandomForest, SVM and GBM.
\<close>

definition VALID_MODELS :: "string list" where
  "VALID_MODELS = [''RandomForest'', ''SVM'', ''GBM'']"

definition verify_input ::
  "('ds, 'x, 'y, 'c, 'r, 'w) library \<Rightarrow> pyval \<Rightarrow> string \<Rightarrow> pyval \<Rightarrow> pyval \<Rightarrow> pyval \<Rightarrow> 'w
   \<Rightarrow> error + unit" where
  "verify_input L model_type path target features tsize w =
     (if model_type \<notin> set (map PStr VALID_MODELS) then
        Inl (ValueError ''Model type not supported.'')
      else if \<not> isfile L path w then
        Inl (FileNotFoundError (''File '' @ [CHR 0x27] @ path @ [CHR 0x27] @ '' does not exist.''))
      else if \<not> isinstance_str target then
        Inl (TypeError ''Target must be a string.'')
      else if \<not> isinstance_list features then
        Inl (TypeError ''Features must be a list.'')
      else if \<not> list_all isinstance_str (list_items features) then
        Inl (TypeError ''Features must be a list of strings.'')
      else if \<not> isinstance_float tsize then
        Inl (TypeError ''Test size must be a float.'')
      else if float_value tsize \<le> 0 \<or> float_value tsize \<ge> 1 then
        Inl (ValueError ''Test size must be between 0 and 1.'')
      else Inr ())"

definition initialize_model ::
  "('ds, 'x, 'y, 'c, 'r, 'w) library \<Rightarrow> pyval \<Rightarrow> (string \<times> pyval) list \<Rightarrow> error + 'c" where
  "initialize_model L ty kw =
     (if ty = PStr ''RandomForest'' then RandomForestClassifier L kw
      else if ty = PStr ''SVM'' then SVC L kw
      else if ty = PStr ''GBM'' then GradientBoostingClassifier L kw
      else Inl (ValueError ''Model type not supported.''))"

definition load_dataset ::
  "('ds, 'x, 'y, 'c, 'r, 'w) library \<Rightarrow> string \<Rightarrow> 'w \<Rightarrow> error + 'ds" where
  "load_dataset L path w = read_csv L path w"

text \<open>The split is requested with \<open>random_state=42\<close>.\<close>

definition preprocess_data ::
  "('ds, 'x, 'y, 'c, 'r, 'w) library \<Rightarrow> 'ds \<Rightarrow> pyval \<Rightarrow> pyval \<Rightarrow> pyval \<Rightarrow> 'w
   \<Rightarrow> (error + ('x \<times> 'x \<times> 'y \<times> 'y)) \<times> 'w" where
  "preprocess_data L ds features target tsize w =
     (case getitem_frame L ds features of
        Inl err \<Rightarrow> (Inl err, w)
      | Inr x \<Rightarrow>
          (case getitem_series L ds target of
             Inl err \<Rightarrow> (Inl err, w)
           | Inr y \<Rightarrow> train_test_split L x y tsize (PInt 42) w))"

text \<open>
  \<open>__init__\<close>. Its \<open>**kwargs\<close> is the dictionary of the extra keyword arguments of the
  call; the hyperparameters are read from its entry \<open>kwargs\<close>, and unpacking them with
  \<open>**\<close> in \<open>__initialize_model\<close> needs a mapping. A constructor that raises leaves no
  instance behind.
\<close>

definition init ::
  "('ds, 'x, 'y, 'c, 'r, 'w) library \<Rightarrow> string \<Rightarrow> pyval \<Rightarrow> pyval \<Rightarrow> pyval \<Rightarrow> pyval
   \<Rightarrow> (string \<times> pyval) list \<Rightarrow> 'w env
   \<Rightarrow> (error + ('ds, 'x, 'y, 'c, 'r) MlModel) \<times> 'w env" where
  "init L path model_type target features tsize kws e =
     (case verify_input L model_type path target features tsize (world e) of
        Inl err \<Rightarrow> (Inl err, e)
      | Inr u \<Rightarrow>
     (case map_of kws ''kwargs'' of
        None \<Rightarrow> (Inl (KeyError ''kwargs''), e)
      | Some kw \<Rightarrow>
     (case load_dataset L path (world e) of
        Inl err \<Rightarrow> (Inl err, e)
      | Inr ds \<Rightarrow>
     (case preprocess_data L ds features target tsize (world e) of
        (Inl err, w1) \<Rightarrow> (Inl err, e\<lparr>world := w1\<rparr>)
      | (Inr (xtr, xte, ytr, yte), w1) \<Rightarrow>
     (case (case kw of
              PDict d \<Rightarrow> (case initialize_model L model_type d of
                            Inl err \<Rightarrow> Inl err | Inr c \<Rightarrow> Inr (d, c))
            | other \<Rightarrow> Inl (TypeError ''argument after ** must be a mapping'')) of
        Inl err \<Rightarrow> (Inl err, e\<lparr>world := w1\<rparr>)
      | Inr (d, c) \<Rightarrow>
          (Inr \<lparr>filepath = path, type = model_type, target_column = target,
                features_list = features, test_size = tsize, kwargs = d,
                dataset = ds, x_train = xtr, x_test = xte, y_train = ytr, y_test = yte,
                model = c, y_pred = None, report = None, last_prediction = None\<rparr>,
           e\<lparr>world := w1\<rparr>))))))"

text \<open>
  \<open>setup\<close> (the name is taken in Isabelle, hence \<open>setup_model\<close>). The state after
  a raise is the state at the raise: each branch returns the instance with the
  assignments made so far. \<open>fit\<close> works in place on the fresh
  classifier that \<open>self.model\<close> already names, so a failed \<open>fit\<close> leaves that
  classifier in \<open>self.model\<close>. The dictionary in \<open>self.kwargs\<close> is the object the
  constructor was handed; the instance is modelled with its own copy, the caller's view of
  that dictionary not being part of the state.
\<close>

definition setup_model ::
  "('ds, 'x, 'y, 'c, 'r, 'w) library \<Rightarrow> (string \<times> pyval) list
   \<Rightarrow> ('ds, 'x, 'y, 'c, 'r) MlModel \<times> 'w env
   \<Rightarrow> (error + unit) \<times> ('ds, 'x, 'y, 'c, 'r) MlModel \<times> 'w env" where
  "setup_model L kws s =
     (case s of (m, e) \<Rightarrow>
      let invalid_kwargs = filter (\<lambda>kwarg. kwarg \<notin> set (get_params L (model m))) (map fst kws)
      in if invalid_kwargs \<noteq> [] then
           (Inl (ValueError (''Invalid kwargs found: '' @ join '', '' invalid_kwargs)), (m, e))
         else
           let m1 = m\<lparr>kwargs := dict_update (kwargs m) kws\<rparr>
           in (case initialize_model L (type m1) (kwargs m1) of
                 Inl err \<Rightarrow> (Inl err, (m1, e))
               | Inr c \<Rightarrow>
                   let m2 = m1\<lparr>model := c\<rparr>
                   in (case fit L c (x_train m2) (y_train m2) (world e) of
                         (Inl err, w1) \<Rightarrow> (Inl err, (m2, e\<lparr>world := w1\<rparr>))
                       | (Inr c', w1) \<Rightarrow>
                           let m3 = m2\<lparr>model := c'\<rparr>
                           in (case clf_predict L c' (x_test m3) w1 of
                                 (Inl err, w2) \<Rightarrow> (Inl err, (m3, e\<lparr>world := w2\<rparr>))
                               | (Inr p, w2) \<Rightarrow>
                                   (Inr (), (m3\<lparr>y_pred := Some p\<rparr>, e\<lparr>world := w2\<rparr>))))))"

text \<open>
  \<open>evaluate_model\<close>, with the value bound to its keyword-only parameter \<open>plot\<close>. The
  test \<open>plot is True\<close> holds for the boolean \<open>True\<close> alone.
\<close>

definition evaluate_model ::
  "('ds, 'x, 'y, 'c, 'r, 'w) library \<Rightarrow> pyval
   \<Rightarrow> ('ds, 'x, 'y, 'c, 'r) MlModel \<times> 'w env
   \<Rightarrow> (error + 'r) \<times> ('ds, 'x, 'y, 'c, 'r) MlModel \<times> 'w env" where
  "evaluate_model L plot s =
     (case s of (m, e) \<Rightarrow>
     (case (case y_pred m of
              None \<Rightarrow>
                let e1 = e\<lparr>warnings := warnings e @
                            [''No data was loaded. Prediction will be done with test data.'']\<rparr>
                in (case clf_predict L (model m) (x_test m) (world e1) of
                      (Inl err, w1) \<Rightarrow> Inl (err, (m, e1\<lparr>world := w1\<rparr>))
                    | (Inr p, w1) \<Rightarrow> Inr (p, (m\<lparr>y_pred := Some p\<rparr>, e1\<lparr>world := w1\<rparr>)))
            | Some p \<Rightarrow> Inr (p, (m, e))) of
        Inl (err, s1) \<Rightarrow> (Inl err, s1)
      | Inr (p, (m1, e1)) \<Rightarrow>
     (case (if plot = PBool True then
              (case classification_report_text L (y_test m1) p of
                 Inl err \<Rightarrow> Inl err
               | Inr txt \<Rightarrow> Inr (e1\<lparr>stdout := stdout e1 @ [txt]\<rparr>))
            else Inr e1) of
        Inl err \<Rightarrow> (Inl err, (m1, e1))
      | Inr e2 \<Rightarrow>
     (case classification_report_dict L (y_test m1) p of
        Inl err \<Rightarrow> (Inl err, (m1, e2))
      | Inr r \<Rightarrow> (Inr r, (m1\<lparr>report := Some r\<rparr>, e2))))))"

text \<open>
  A call \<open>m.evaluate_model(*args, **kws)\<close> against the signature
  \<open>evaluate_model(self, *, plot=False)\<close>: no positional argument is accepted, no
  keyword other than \<open>plot\<close>, and \<open>plot\<close> defaults to \<open>False\<close>. The interpreter raises
  \<open>TypeError\<close> before the body runs.
\<close>

definition evaluate_model_call ::
  "('ds, 'x, 'y, 'c, 'r, 'w) library \<Rightarrow> pyval list \<Rightarrow> (string \<times> pyval) list
   \<Rightarrow> ('ds, 'x, 'y, 'c, 'r) MlModel \<times> 'w env
   \<Rightarrow> (error + 'r) \<times> ('ds, 'x, 'y, 'c, 'r) MlModel \<times> 'w env" where
  "evaluate_model_call L args kws s =
     (if args \<noteq> [] then
        (Inl (TypeError ''evaluate_model() takes 1 positional argument but more were given''), s)
      else
        (case filter (\<lambda>k. k \<noteq> ''plot'') (map fst kws) of
           k # ks \<Rightarrow>
             (Inl (TypeError (''evaluate_model() got an unexpected keyword argument '' @
                              [CHR 0x27] @ k @ [CHR 0x27])), s)
         | [] \<Rightarrow>
             evaluate_model L (case map_of kws ''plot'' of None \<Rightarrow> PBool False | Some v \<Rightarrow> v) s))"

text \<open>
  \<open>predict\<close>: the classifier is asked twice, first for the cache, then for the value
  returned.
\<close>

definition predict ::
  "('ds, 'x, 'y, 'c, 'r, 'w) library \<Rightarrow> 'x
   \<Rightarrow> ('ds, 'x, 'y, 'c, 'r) MlModel \<times> 'w env
   \<Rightarrow> (error + 'y) \<times> ('ds, 'x, 'y, 'c, 'r) MlModel \<times> 'w env" where
  "predict L data s =
     (case s of (m, e) \<Rightarrow>
     (case clf_predict L (model m) data (world e) of
        (Inl err, w1) \<Rightarrow> (Inl err, (m, e\<lparr>world := w1\<rparr>))
      | (Inr p1, w1) \<Rightarrow>
          let m1 = m\<lparr>last_prediction := Some p1\<rparr>
          in (case clf_predict L (model m1) data w1 of
                (Inl err, w2) \<Rightarrow> (Inl err, (m1, e\<lparr>world := w2\<rparr>))
              | (Inr p2, w2) \<Rightarrow> (Inr p2, (m1, e\<lparr>world := w2\<rparr>)))))"


section \<open>Calls other than \<open>setup\<close>\<close>

text \<open>
  The other two methods of the class, as a caller may invoke them in any order. An
  exception reaches the caller, who may go on using the instance, so a run continues
  from the state that a failed call leaves.
\<close>

datatype 'x call = Predict 'x | EvaluateModel pyval

fun call_state ::
  "('ds, 'x, 'y, 'c, 'r, 'w) library \<Rightarrow> 'x call
   \<Rightarrow> ('ds, 'x, 'y, 'c, 'r) MlModel \<times> 'w env \<Rightarrow> ('ds, 'x, 'y, 'c, 'r) MlModel \<times> 'w env" where
  "call_state L (Predict data) s = snd (predict L data s)"
| "call_state L (EvaluateModel plot) s = snd (evaluate_model L plot s)"

fun run_calls ::
  "('ds, 'x, 'y, 'c, 'r, 'w) library \<Rightarrow> 'x call list
   \<Rightarrow> ('ds, 'x, 'y, 'c, 'r) MlModel \<times> 'w env \<Rightarrow> ('ds, 'x, 'y, 'c, 'r) MlModel \<times> 'w env" where
  "run_calls L [] s = s"
| "run_calls L (c # cs) s = run_calls L cs (call_state L c s)"


section \<open>Contracts of the libraries\<close>

text \<open>
  What the libraries document and the claims rely on. A classifier that has only been
  constructed refuses to predict (scikit-learn's \<open>check_is_fitted\<close>).
\<close>

definition unfit_predict_raises :: "('ds, 'x, 'y, 'c, 'r, 'w) library \<Rightarrow> bool" where
  "unfit_predict_raises L \<longleftrightarrow>
     (\<forall>ty kw c data w. initialize_model L ty kw = Inr c
        \<longrightarrow> fst (clf_predict L c data w) = Inl NotFittedError)"

text \<open>The outcome of a classifier's \<open>predict\<close> does not depend on the world.\<close>

definition predict_deterministic :: "('ds, 'x, 'y, 'c, 'r, 'w) library \<Rightarrow> bool" where
  "predict_deterministic L \<longleftrightarrow>
     (\<forall>c data w w'. fst (clf_predict L c data w) = fst (clf_predict L c data w'))"

text \<open>
  \<open>train_test_split\<close> with an integer \<open>random_state\<close> gives an outcome that does not
  depend on the world.
\<close>

definition seeded_split_deterministic :: "('ds, 'x, 'y, 'c, 'r, 'w) library \<Rightarrow> bool" where
  "seeded_split_deterministic L \<longleftrightarrow>
     (\<forall>x y tsize seed w w'.
        fst (train_test_split L x y tsize (PInt seed) w) =
        fst (train_test_split L x y tsize (PInt seed) w'))"


text \<open>
  Two contracts about sizes, for a count of rows on data frames and one on feature
  frames: selecting columns keeps every row, and a split with a fraction \<open>r\<close> strictly
  between 0 and 1 partitions the rows and puts \<open>r\<close> times their number, to within one
  row, in the test part (scikit-learn takes the ceiling).
\<close>

definition selection_keeps_rows ::
  "('ds, 'x, 'y, 'c, 'r, 'w) library \<Rightarrow> ('ds \<Rightarrow> nat) \<Rightarrow> ('x \<Rightarrow> nat) \<Rightarrow> bool" where
  "selection_keeps_rows L rows_ds rows \<longleftrightarrow>
     (\<forall>ds key x. getitem_frame L ds key = Inr x \<longrightarrow> rows x = rows_ds ds)"

definition split_partitions_rows ::
  "('ds, 'x, 'y, 'c, 'r, 'w) library \<Rightarrow> ('x \<Rightarrow> nat) \<Rightarrow> bool" where
  "split_partitions_rows L rows \<longleftrightarrow>
     (\<forall>x y r seed w xtr xte ytr yte w'.
        0 < r \<and> r < 1
        \<and> train_test_split L x y (PFloat r) seed w = (Inr (xtr, xte, ytr, yte), w')
        \<longrightarrow> rows xtr + rows xte = rows x \<and> \<bar>real (rows xte) - r * real (rows x)\<bar> < 1)"


section \<open>Saving and loading\<close>

text \<open>
  Modelled from the spec: \<open>save_model\<close> and \<open>load_model\<close> are called by
  \<open>examples/workflow_gbm.py\<close> but defined in no source file at hand. By the spec,
  SaveModel serializes the entire Manager state to a single opaque blob at the path and
  fails with WriteError on an I/O failure; LoadModel deserializes a blob produced by
  SaveModel into a fully reconstructed instance and fails with CorruptArchive or
  FileNotFound as appropriate.
\<close>

datatype 'm blob = Pickled 'm | OtherBytes "nat list"

record 'm storage =
  contents :: "string \<Rightarrow> 'm blob option"
  read_only :: "string list"

definition save_model :: "string \<Rightarrow> 'm \<Rightarrow> 'm storage \<Rightarrow> error + 'm storage" where
  "save_model path m st =
     (if path \<in> set (read_only st) then Inl (WriteError path)
      else Inr (st\<lparr>contents := (contents st)(path \<mapsto> Pickled m)\<rparr>))"

definition load_model :: "string \<Rightarrow> 'm storage \<Rightarrow> error + 'm" where
  "load_model path st =
     (case contents st path of
        None \<Rightarrow> Inl (FileNotFoundError path)
      | Some (OtherBytes bs) \<Rightarrow> Inl (CorruptArchive path)
      | Some (Pickled m) \<Rightarrow> Inr m)"


section \<open>A small library to run the operations on\<close>

text \<open>
  Concrete collaborators for the examples: a table of five rows, a split that puts the
  last \<open>\<lceil>test_size * n\<rceil>\<close> rows in the test set when seeded and lets the world decide
  otherwise, and a classifier that, once fitted, predicts the first training label for
  every row and, before that, refuses.
\<close>

datatype demo_clf = DemoClf string "(string \<times> pyval) list" "nat option"

type_synonym demo_frame = "string list \<times> nat list list"

definition demo_table :: demo_frame where
  "demo_table =
     ([''alti'', ''slope'', ''label''],
      [[10, 1, 0], [20, 2, 1], [30, 3, 1], [40, 4, 0], [50, 5, 1]])"

definition demo_cell :: "string list \<Rightarrow> nat list \<Rightarrow> pyval \<Rightarrow> nat" where
  "demo_cell hdr row key =
     (case key of
        PStr c \<Rightarrow> (case map_of (zip hdr row) c of Some v \<Rightarrow> v | None \<Rightarrow> 0)
      | other \<Rightarrow> 0)"

definition demo_getitem_series :: "demo_frame \<Rightarrow> pyval \<Rightarrow> error + nat list" where
  "demo_getitem_series ds key =
     (case key of
        PStr c \<Rightarrow>
          if c \<in> set (fst ds) then Inr (map (\<lambda>row. demo_cell (fst ds) row key) (snd ds))
          else Inl (KeyError c)
      | other \<Rightarrow> Inl (KeyError ''not a column label''))"

definition demo_getitem_frame :: "demo_frame \<Rightarrow> pyval \<Rightarrow> error + nat list list" where
  "demo_getitem_frame ds key =
     (case key of
        PList cs \<Rightarrow>
          if list_all (\<lambda>c. c \<in> set (map PStr (fst ds))) cs
          then Inr (map (\<lambda>row. map (demo_cell (fst ds) row) cs) (snd ds))
          else Inl (KeyError ''not in index'')
      | other \<Rightarrow> Inl (KeyError ''not a list of column labels''))"

definition demo_train_test_split ::
  "nat list list \<Rightarrow> nat list \<Rightarrow> pyval \<Rightarrow> pyval \<Rightarrow> nat
   \<Rightarrow> (error + (nat list list \<times> nat list list \<times> nat list \<times> nat list)) \<times> nat" where
  "demo_train_test_split x y tsize random_state w =
     (case tsize of
        PFloat t \<Rightarrow>
          let n = length x; k = nat \<lceil>t * real n\<rceil>
          in if length y \<noteq> n then (Inl (ValueError ''inconsistent numbers of samples''), w)
             else if n \<le> k then (Inl (ValueError ''the resulting train set will be empty''), w)
             else (case random_state of
                     PInt seed \<Rightarrow> (Inr (take (n - k) x, drop (n - k) x, take (n - k) y, drop (n - k) y), w)
                   | other \<Rightarrow>
                       if even w
                       then (Inr (take (n - k) x, drop (n - k) x, take (n - k) y, drop (n - k) y), Suc w)
                       else (Inr (drop k x, take k x, drop k y, take k y), Suc w))
      | other \<Rightarrow> (Inl (ValueError ''test_size must be a float''), w))"

definition demo_param_names :: "string \<Rightarrow> string list" where
  "demo_param_names kind =
     (if kind = ''SVM'' then [''C'', ''kernel'', ''random_state'']
      else if kind = ''GBM'' then [''n_estimators'', ''max_depth'', ''learning_rate'', ''warm_start'', ''random_state'']
      else [''n_estimators'', ''max_depth'', ''random_state''])"

definition demo_new :: "string \<Rightarrow> (string \<times> pyval) list \<Rightarrow> error + demo_clf" where
  "demo_new kind kw =
     (if list_all (\<lambda>k. k \<in> set (demo_param_names kind)) (map fst kw)
      then Inr (DemoClf kind kw None)
      else Inl (TypeError ''__init__() got an unexpected keyword argument''))"

fun demo_get_params :: "demo_clf \<Rightarrow> string list" where
  "demo_get_params (DemoClf kind kw fitted) = demo_param_names kind"

fun demo_fit :: "demo_clf \<Rightarrow> nat list list \<Rightarrow> nat list \<Rightarrow> nat \<Rightarrow> (error + demo_clf) \<times> nat" where
  "demo_fit (DemoClf kind kw fitted) x [] w = (Inl (ValueError ''no samples''), w)"
| "demo_fit (DemoClf kind kw fitted) x (l # ls) w =
     (if length x = Suc (length ls) then (Inr (DemoClf kind kw (Some l)), Suc w)
      else (Inl (ValueError ''inconsistent numbers of samples''), w))"

fun demo_predict :: "demo_clf \<Rightarrow> nat list list \<Rightarrow> nat \<Rightarrow> (error + nat list) \<times> nat" where
  "demo_predict (DemoClf kind kw None) data w = (Inl NotFittedError, w)"
| "demo_predict (DemoClf kind kw (Some l)) data w = (Inr (map (\<lambda>row. l) data), w)"

definition demo_report_dict :: "nat list \<Rightarrow> nat list \<Rightarrow> error + (string \<times> nat) list" where
  "demo_report_dict y_true y_hat =
     (if length y_true \<noteq> length y_hat then Inl (ValueError ''inconsistent numbers of samples'')
      else Inr [(''correct'', length (filter (\<lambda>(a, b). a = b) (zip y_true y_hat))),
                (''support'', length y_true)])"

definition demo_report_text :: "nat list \<Rightarrow> nat list \<Rightarrow> error + string" where
  "demo_report_text y_true y_hat =
     (if length y_true \<noteq> length y_hat then Inl (ValueError ''inconsistent numbers of samples'')
      else Inr ''precision recall f1-score support'')"

definition demo_library ::
  "(demo_frame, nat list list, nat list, demo_clf, (string \<times> nat) list, nat) library" where
  "demo_library =
     \<lparr>isfile = (\<lambda>path w. path = ''training.csv''),
      read_csv = (\<lambda>path w. if path = ''training.csv'' then Inr demo_table
                            else Inl (FileNotFoundError path)),
      getitem_frame = demo_getitem_frame,
      getitem_series = demo_getitem_series,
      train_test_split = demo_train_test_split,
      RandomForestClassifier = demo_new ''RandomForest'',
      SVC = demo_new ''SVM'',
      GradientBoostingClassifier = demo_new ''GBM'',
      get_params = demo_get_params,
      fit = demo_fit,
      clf_predict = demo_predict,
      classification_report_text = demo_report_text,
      classification_report_dict = demo_report_dict\<rparr>"

definition demo_env :: "nat env" where
  "demo_env = \<lparr>world = 0, stdout = [], warnings = []\<rparr>"

type_synonym demo_model = "(demo_frame, nat list list, nat list, demo_clf, (string \<times> nat) list) MlModel"

definition demo_fresh :: demo_model where
  "demo_fresh =
     \<lparr>filepath = ''training.csv'', type = PStr ''RandomForest'', target_column = PStr ''label'',
      features_list = PList [PStr ''alti'', PStr ''slope''], test_size = PFloat (1 / 5),
      kwargs = [], dataset = demo_table,
      x_train = [[10, 1], [20, 2], [30, 3], [40, 4]], x_test = [[50, 5]],
      y_train = [0, 1, 1, 0], y_test = [1],
      model = DemoClf ''RandomForest'' [] None,
      y_pred = None, report = None, last_prediction = None\<rparr>"

definition demo_kwargs :: "(string \<times> pyval) list" where
  "demo_kwargs = [(''n_estimators'', PInt 100), (''max_depth'', PInt 10)]"

definition demo_fitted :: demo_model where
  "demo_fitted =
     demo_fresh\<lparr>kwargs := demo_kwargs,
                model := DemoClf ''RandomForest'' demo_kwargs (Some 0),
                y_pred := Some [0]\<rparr>"

text \<open>A library whose classifier answers with the state of the world.\<close>

definition flaky_library ::
  "(demo_frame, nat list list, nat list, demo_clf, (string \<times> nat) list, nat) library" where
  "flaky_library = demo_library\<lparr>clf_predict := (\<lambda>c data w. (Inr (map (\<lambda>row. w) data), Suc w))\<rparr>"

section \<open>Running the small library\<close>

lemmas demo_defs =
  demo_library_def demo_env_def demo_table_def demo_cell_def demo_getitem_series_def
  demo_getitem_frame_def demo_train_test_split_def demo_param_names_def demo_new_def
  demo_report_dict_def demo_report_text_def demo_fresh_def demo_fitted_def demo_kwargs_def

lemma demo_init:
  "init demo_library ''training.csv'' (PStr ''RandomForest'') (PStr ''label'')
     (PList [PStr ''alti'', PStr ''slope'']) (PFloat (1 / 5)) [(''kwargs'', PDict [])] demo_env
   = (Inr demo_fresh, demo_env)"
  by (simp add: init_def verify_input_def VALID_MODELS_def load_dataset_def
      preprocess_data_def initialize_model_def Let_def demo_defs)

lemma demo_setup:
  "setup_model demo_library demo_kwargs (demo_fresh, demo_env)
   = (Inr (), (demo_fitted, demo_env\<lparr>world := 1\<rparr>))"
  by (simp add: setup_model_def initialize_model_def Let_def demo_defs)


section \<open>Reconfiguration rejects unknown hyperparameters atomically\<close>

lemma mem_nonempty: "x \<in> set xs \<Longrightarrow> xs \<noteq> []"
  by auto

lemma sublist_prepend: "sublist xs ys \<Longrightarrow> sublist xs (ps @ ys)"
  by (simp add: sublist_append)

lemma sublist_join: "x \<in> set xs \<Longrightarrow> sublist x (join sep xs)"
proof (induction sep xs rule: join.induct)
  case (1 sep)
  then show ?case by simp
next
  case (2 sep y)
  then show ?case by simp
next
  case (3 sep a b bs)
  show ?case
  proof (cases "x = a")
    case True
    then show ?thesis by (simp add: sublist_append_rightI)
  next
    case False
    with 3 have "sublist x (join sep (b # bs))" by simp
    then have "sublist x (a @ sep @ join sep (b # bs))"
      by (intro sublist_prepend)
    then show ?thesis by simp
  qed
qed

text \<open>
  Claim C1. When the keyword arguments of \<open>setup\<close> contain a key that the current
  classifier's \<open>get_params()\<close> does not list, the call raises \<open>ValueError\<close> with
  the message \<open>Invalid kwargs found:\<close> followed by the offending keys joined by commas,
  so every offending key occurs in the message; and the instance and its surroundings
  are returned as they were: hyperparameters, classifier and predictions are untouched.
\<close>

theorem setup_rejects_invalid_kwargs:
  assumes "k \<in> set (map fst kws)" and "k \<notin> set (get_params L (model m))"
  shows "setup_model L kws (m, e) =
           (Inl (ValueError (''Invalid kwargs found: '' @
                   join '', '' (filter (\<lambda>kwarg. kwarg \<notin> set (get_params L (model m))) (map fst kws)))),
            (m, e))
         \<and> (\<forall>k' \<in> set (map fst kws). k' \<notin> set (get_params L (model m)) \<longrightarrow>
              sublist k' (''Invalid kwargs found: '' @
                   join '', '' (filter (\<lambda>kwarg. kwarg \<notin> set (get_params L (model m))) (map fst kws))))"
proof -
  let ?bad = "filter (\<lambda>kwarg. kwarg \<notin> set (get_params L (model m))) (map fst kws)"
  from assms have "k \<in> set ?bad" by simp
  then have ne: "?bad \<noteq> []" by (rule mem_nonempty)
  have named: "sublist k' (''Invalid kwargs found: '' @ join '', '' ?bad)"
    if "k' \<in> set (map fst kws)" "k' \<notin> set (get_params L (model m))" for k'
  proof -
    from that have "k' \<in> set ?bad" by simp
    then have "sublist k' (join '', '' ?bad)" by (rule sublist_join)
    then show ?thesis by (rule sublist_prepend)
  qed
  from ne have "setup_model L kws (m, e) =
      (Inl (ValueError (''Invalid kwargs found: '' @ join '', '' ?bad)), (m, e))"
    by (simp add: setup_model_def Let_def)
  with named show ?thesis by blast
qed

theorem setup_rejects_invalid_kwargs_witness:
  "setup_model demo_library [(''max_depth'', PInt 4), (''bogus_param'', PInt 1), (''depth'', PInt 2)]
     (demo_fitted, demo_env)
   = (Inl (ValueError ''Invalid kwargs found: bogus_param, depth''), (demo_fitted, demo_env))
   \<and> sublist ''bogus_param'' ''Invalid kwargs found: bogus_param, depth''
   \<and> sublist ''depth'' ''Invalid kwargs found: bogus_param, depth''"
  using setup_rejects_invalid_kwargs [of "''bogus_param''"
      "[(''max_depth'', PInt 4), (''bogus_param'', PInt 1), (''depth'', PInt 2)]"
      demo_library demo_fitted demo_env]
  by (simp add: demo_defs)

section \<open>Construction\<close>

lemma list_all_str_map: "list_all isinstance_str (map PStr fs)"
  by (induction fs) simp_all

lemma verify_input_valid:
  assumes "model_type \<in> set (map PStr VALID_MODELS)" and "isfile L path w"
    and "isinstance_str target" and "list_all isinstance_str vs"
    and "0 < r" and "r < 1"
  shows "verify_input L model_type path target (PList vs) (PFloat r) w = Inr ()"
  using assms by (simp add: verify_input_def)

lemma init_steps:
  assumes "verify_input L model_type path target features tsize (world e) = Inr ()"
    and "map_of kws ''kwargs'' = Some (PDict d)"
    and "read_csv L path (world e) = Inr ds"
    and "getitem_frame L ds features = Inr x"
    and "getitem_series L ds target = Inr y"
    and "train_test_split L x y tsize (PInt 42) (world e) = (Inr (xtr, xte, ytr, yte), w1)"
    and "initialize_model L model_type d = Inr c"
  shows "init L path model_type target features tsize kws e =
           (Inr \<lparr>filepath = path, type = model_type, target_column = target,
                 features_list = features, test_size = tsize, kwargs = d,
                 dataset = ds, x_train = xtr, x_test = xte, y_train = ytr, y_test = yte,
                 model = c, y_pred = None, report = None, last_prediction = None\<rparr>,
            e\<lparr>world := w1\<rparr>)"
  using assms by (simp add: init_def load_dataset_def preprocess_data_def)

lemma init_success_steps:
  assumes "init L path model_type target features tsize kws e = (Inr m, e')"
  shows "\<exists>d ds x y w1.
           verify_input L model_type path target features tsize (world e) = Inr ()
         \<and> map_of kws ''kwargs'' = Some (PDict d)
         \<and> read_csv L path (world e) = Inr ds
         \<and> getitem_frame L ds features = Inr x
         \<and> getitem_series L ds target = Inr y
         \<and> train_test_split L x y tsize (PInt 42) (world e) =
             (Inr (x_train m, x_test m, y_train m, y_test m), w1)
         \<and> initialize_model L model_type d = Inr (model m)
         \<and> y_pred m = None
         \<and> e' = e\<lparr>world := w1\<rparr>"
  using assms
  by (auto simp: init_def load_dataset_def preprocess_data_def
      split: sum.splits option.splits prod.splits pyval.splits)

text \<open>
  The hyperparameters are read from the entry \<open>kwargs\<close> of the keyword arguments; a
  call that passes none under that name ends in \<open>KeyError\<close>, whatever the libraries do.
\<close>

lemma init_without_kwargs_entry:
  assumes "verify_input L model_type path target features tsize (world e) = Inr ()"
    and "map_of kws ''kwargs'' = None"
  shows "init L path model_type target features tsize kws e = (Inl (KeyError ''kwargs''), e)"
  using assms by (simp add: init_def)

lemma demo_selection_keeps_rows:
  "selection_keeps_rows demo_library (\<lambda>ds. length (snd ds)) length"
  by (auto simp: selection_keeps_rows_def demo_library_def demo_getitem_frame_def
      split: pyval.splits if_splits)

lemma ceiling_close:
  fixes r :: real
  assumes "0 < r"
  shows "\<bar>real (nat \<lceil>r * real n\<rceil>) - r * real n\<bar> < 1"
proof -
  have "0 \<le> r * real n" using assms by simp
  then have "0 \<le> \<lceil>r * real n\<rceil>" by simp
  then have "real (nat \<lceil>r * real n\<rceil>) = of_int \<lceil>r * real n\<rceil>" by simp
  moreover have "of_int \<lceil>r * real n\<rceil> - 1 < r * real n \<and> r * real n \<le> of_int \<lceil>r * real n\<rceil>"
    by (rule ceiling_correct)
  ultimately show ?thesis by simp
qed

lemma demo_split_partitions_rows: "split_partitions_rows demo_library length"
proof -
  have "length xtr + length xte = length x \<and> \<bar>real (length xte) - r * real (length x)\<bar> < 1"
    if r: "0 < r" "r < 1"
      and s: "demo_train_test_split x y (PFloat r) seed w = (Inr (xtr, xte, ytr, yte), w')"
    for x y r seed w xtr xte ytr yte w'
  proof -
    let ?n = "length x" and ?k = "nat \<lceil>r * real (length x)\<rceil>"
    from s have k: "?k < ?n"
      by (auto simp: demo_train_test_split_def Let_def split: if_splits)
    from s k have "(xtr = take (?n - ?k) x \<and> xte = drop (?n - ?k) x)
                  \<or> (xtr = drop ?k x \<and> xte = take ?k x)"
      by (auto simp: demo_train_test_split_def Let_def split: if_splits pyval.splits)
    with k have "length xtr + length xte = ?n \<and> length xte = ?k" by auto
    with ceiling_close [OF r(1), of ?n] show ?thesis by simp
  qed
  then show ?thesis
    unfolding split_partitions_rows_def demo_library_def by simp blast
qed

text \<open>
  Claim C2, as amended. For a supported model kind, an existing path, a string target,
  a list of strings as features and a test fraction strictly between 0 and 1,
  \<open>__verify_input\<close> raises nothing. With the hyperparameters passed as a dictionary
  under the keyword \<open>kwargs\<close>, construction then succeeds exactly when reading the
  file, selecting the feature and target columns, splitting and instantiating the
  classifier all succeed; the instance holds the four parts that \<open>train_test_split\<close>
  returned for the selected columns, the test fraction and \<open>random_state=42\<close>. When
  selecting columns keeps every row and the split partitions the rows with the test
  fraction of them, to within one row, in the test part, the train and test row counts of
  the instance sum to the row count of the dataset and the test count is within one row
  of the test fraction of it.
\<close>

theorem init_on_valid_input:
  assumes "model_type \<in> set (map PStr VALID_MODELS)"
    and "isfile L path (world e)"
    and "target = PStr t"
    and "features = PList (map PStr fs)"
    and "tsize = PFloat r" and "0 < r" and "r < 1"
    and "map_of kws ''kwargs'' = Some (PDict d)"
  shows "verify_input L model_type path target features tsize (world e) = Inr ()
       \<and> (init L path model_type target features tsize kws e = (Inr m, e') \<longleftrightarrow>
            (\<exists>ds x y w1.
                read_csv L path (world e) = Inr ds
              \<and> getitem_frame L ds features = Inr x
              \<and> getitem_series L ds target = Inr y
              \<and> train_test_split L x y tsize (PInt 42) (world e) =
                  (Inr (x_train m, x_test m, y_train m, y_test m), w1)
              \<and> initialize_model L model_type d = Inr (model m)
              \<and> m = \<lparr>filepath = path, type = model_type, target_column = target,
                      features_list = features, test_size = tsize, kwargs = d,
                      dataset = ds, x_train = x_train m, x_test = x_test m,
                      y_train = y_train m, y_test = y_test m, model = model m,
                      y_pred = None, report = None, last_prediction = None\<rparr>
              \<and> e' = e\<lparr>world := w1\<rparr>))
       \<and> (selection_keeps_rows L rows_ds rows \<and> split_partitions_rows L rows
            \<and> init L path model_type target features tsize kws e = (Inr m, e') \<longrightarrow>
              rows (x_train m) + rows (x_test m) = rows_ds (dataset m)
            \<and> \<bar>real (rows (x_test m)) - r * real (rows_ds (dataset m))\<bar> < 1)"
proof -
  have v: "verify_input L model_type path target features tsize (world e) = Inr ()"
    using assms by (simp add: verify_input_valid list_all_str_map)
  have suff: "init L path model_type target features tsize kws e = (Inr m, e')"
    if "read_csv L path (world e) = Inr ds"
      and "getitem_frame L ds features = Inr x"
      and "getitem_series L ds target = Inr y"
      and "train_test_split L x y tsize (PInt 42) (world e) =
             (Inr (x_train m, x_test m, y_train m, y_test m), w1)"
      and "initialize_model L model_type d = Inr (model m)"
      and "m = \<lparr>filepath = path, type = model_type, target_column = target,
                      features_list = features, test_size = tsize, kwargs = d,
                      dataset = ds, x_train = x_train m, x_test = x_test m,
                      y_train = y_train m, y_test = y_test m, model = model m,
                      y_pred = None, report = None, last_prediction = None\<rparr>"
      and "e' = e\<lparr>world := w1\<rparr>" for ds x y w1
    using init_steps [OF v assms(8) that(1-5)] that(6,7) by simp
  have nec: "\<exists>ds x y w1.
                read_csv L path (world e) = Inr ds
              \<and> getitem_frame L ds features = Inr x
              \<and> getitem_series L ds target = Inr y
              \<and> train_test_split L x y tsize (PInt 42) (world e) =
                  (Inr (x_train m, x_test m, y_train m, y_test m), w1)
              \<and> initialize_model L model_type d = Inr (model m)
              \<and> m = \<lparr>filepath = path, type = model_type, target_column = target,
                      features_list = features, test_size = tsize, kwargs = d,
                      dataset = ds, x_train = x_train m, x_test = x_test m,
                      y_train = y_train m, y_test = y_test m, model = model m,
                      y_pred = None, report = None, last_prediction = None\<rparr>
              \<and> e' = e\<lparr>world := w1\<rparr>"
    if "init L path model_type target features tsize kws e = (Inr m, e')"
    using that assms(8)
    by (auto simp: init_def load_dataset_def preprocess_data_def
        split: sum.splits option.splits prod.splits pyval.splits)
  have sizes: "rows (x_train m) + rows (x_test m) = rows_ds (dataset m)
      \<and> \<bar>real (rows (x_test m)) - r * real (rows_ds (dataset m))\<bar> < 1"
    if keep: "selection_keeps_rows L rows_ds rows"
      and part: "split_partitions_rows L rows"
      and ok: "init L path model_type target features tsize kws e = (Inr m, e')"
  proof -
    from nec [OF ok] obtain ds x y w1 where
      sel: "getitem_frame L ds features = Inr x"
      and spl: "train_test_split L x y tsize (PInt 42) (world e) =
                  (Inr (x_train m, x_test m, y_train m, y_test m), w1)"
      and m: "m = \<lparr>filepath = path, type = model_type, target_column = target,
                      features_list = features, test_size = tsize, kwargs = d,
                      dataset = ds, x_train = x_train m, x_test = x_test m,
                      y_train = y_train m, y_test = y_test m, model = model m,
                      y_pred = None, report = None, last_prediction = None\<rparr>"
      by blast
    from m have ds: "dataset m = ds"
      by (metis MlModel.select_convs(7))
    from keep sel have rx: "rows x = rows_ds ds"
      unfolding selection_keeps_rows_def by blast
    from spl assms(5) have "train_test_split L x y (PFloat r) (PInt 42) (world e) =
                  (Inr (x_train m, x_test m, y_train m, y_test m), w1)"
      by simp
    with part assms(6,7)
    have "rows (x_train m) + rows (x_test m) = rows x
        \<and> \<bar>real (rows (x_test m)) - r * real (rows x)\<bar> < 1"
      unfolding split_partitions_rows_def by blast
    with rx ds show ?thesis by simp
  qed
  from v suff nec sizes show ?thesis by blast
qed

theorem init_on_valid_input_witness:
  "PStr ''RandomForest'' \<in> set (map PStr VALID_MODELS)
   \<and> isfile demo_library ''training.csv'' (world demo_env)
   \<and> (0::real) < 1 / 5 \<and> (1 / 5 :: real) < 1
   \<and> map_of [(''kwargs'', PDict [])] ''kwargs'' = Some (PDict [])
   \<and> verify_input demo_library (PStr ''RandomForest'') ''training.csv'' (PStr ''label'')
        (PList [PStr ''alti'', PStr ''slope'']) (PFloat (1 / 5)) (world demo_env) = Inr ()
   \<and> init demo_library ''training.csv'' (PStr ''RandomForest'') (PStr ''label'')
        (PList [PStr ''alti'', PStr ''slope'']) (PFloat (1 / 5)) [(''kwargs'', PDict [])] demo_env
      = (Inr demo_fresh, demo_env)
   \<and> selection_keeps_rows demo_library (\<lambda>ds. length (snd ds)) length
   \<and> split_partitions_rows demo_library length
   \<and> length (x_train demo_fresh) + length (x_test demo_fresh) = length (snd (dataset demo_fresh))
   \<and> \<bar>real (length (x_test demo_fresh)) - (1 / 5) * real (length (snd (dataset demo_fresh)))\<bar> < 1
   \<and> length (x_train demo_fresh) = 4 \<and> length (x_test demo_fresh) = 1"
proof -
  have a: "PStr ''RandomForest'' \<in> set (map PStr VALID_MODELS)"
    by (simp add: VALID_MODELS_def)
  have b: "isfile demo_library ''training.csv'' (world demo_env)"
    by (simp add: demo_library_def)
  have c: "(0::real) < 1 / 5" and c': "(1 / 5 :: real) < 1" by simp_all
  have k: "map_of [(''kwargs'', PDict [])] ''kwargs'' = Some (PDict [])" by simp
  have f: "PList [PStr ''alti'', PStr ''slope''] = PList (map PStr [''alti'', ''slope''])"
    by simp
  note h = init_on_valid_input [of "PStr ''RandomForest''" demo_library "''training.csv''" demo_env
      "PStr ''label''" "''label''" "PList [PStr ''alti'', PStr ''slope'']" "[''alti'', ''slope'']"
      "PFloat (1 / 5)" "1 / 5" "[(''kwargs'', PDict [])]" "[]" demo_fresh demo_env
      "\<lambda>ds. length (snd ds)" length, OF a b refl f refl c c' k]
  from h have v: "verify_input demo_library (PStr ''RandomForest'') ''training.csv''
        (PStr ''label'') (PList [PStr ''alti'', PStr ''slope'']) (PFloat (1 / 5)) (world demo_env)
        = Inr ()"
    by (rule conjunct1)
  from h demo_selection_keeps_rows demo_split_partitions_rows demo_init
  have s: "length (x_train demo_fresh) + length (x_test demo_fresh) = length (snd (dataset demo_fresh))
   \<and> \<bar>real (length (x_test demo_fresh)) - (1 / 5) * real (length (snd (dataset demo_fresh)))\<bar> < 1"
    by blast
  have n: "length (x_train demo_fresh) = 4 \<and> length (x_test demo_fresh) = 1"
    by (simp add: demo_defs)
  from a b c c' k v demo_init demo_selection_keeps_rows demo_split_partitions_rows s n
  show ?thesis by (intro conjI) simp_all
qed

text \<open>
  Claim C2 as stated fails: every argument is valid in its sense, the file exists, and
  construction still raises, here because the table has no column of the target's name.
\<close>

theorem init_on_valid_input_counterexample:
  "PStr ''RandomForest'' \<in> set (map PStr VALID_MODELS)
   \<and> isfile demo_library ''training.csv'' (world demo_env)
   \<and> (0::real) < 1 / 5 \<and> (1 / 5 :: real) < 1
   \<and> init demo_library ''training.csv'' (PStr ''RandomForest'') (PStr ''landslide'')
        (PList [PStr ''alti'', PStr ''slope'']) (PFloat (1 / 5)) [(''kwargs'', PDict [])] demo_env
      = (Inl (KeyError ''landslide''), demo_env)"
  by (simp add: init_def verify_input_def VALID_MODELS_def load_dataset_def
      preprocess_data_def initialize_model_def Let_def demo_defs)

text \<open>
  Claim C6, as amended. After the checks of the model kind, the path and the target,
  \<open>__verify_input\<close> raises \<open>TypeError\<close> when the features are not a list and when
  some element of the list is not a string. It does not ask for a non-empty list: the
  empty list passes validation, and construction goes on to select zero columns and
  succeeds when the libraries do.
\<close>

theorem verify_input_features:
  assumes "model_type \<in> set (map PStr VALID_MODELS)"
    and "isfile L path (world e)"
    and "isinstance_str target"
  shows "(\<not> isinstance_list features \<longrightarrow>
            verify_input L model_type path target features tsize (world e)
              = Inl (TypeError ''Features must be a list.'')
          \<and> init L path model_type target features tsize kws e
              = (Inl (TypeError ''Features must be a list.''), e))
       \<and> (isinstance_list features \<and> \<not> list_all isinstance_str (list_items features) \<longrightarrow>
            verify_input L model_type path target features tsize (world e)
              = Inl (TypeError ''Features must be a list of strings.'')
          \<and> init L path model_type target features tsize kws e
              = (Inl (TypeError ''Features must be a list of strings.''), e))
       \<and> (0 < r \<and> r < 1 \<longrightarrow>
            verify_input L model_type path target (PList []) (PFloat r) (world e) = Inr ())
       \<and> (0 < r \<and> r < 1
            \<and> map_of kws ''kwargs'' = Some (PDict d)
            \<and> read_csv L path (world e) = Inr ds
            \<and> getitem_frame L ds (PList []) = Inr x
            \<and> getitem_series L ds target = Inr y
            \<and> train_test_split L x y (PFloat r) (PInt 42) (world e) = (Inr (xtr, xte, ytr, yte), w1)
            \<and> initialize_model L model_type d = Inr c \<longrightarrow>
            \<not> isl (fst (init L path model_type target (PList []) (PFloat r) kws e)))"
proof -
  have a: "verify_input L model_type path target features tsize (world e)
             = Inl (TypeError ''Features must be a list.'')"
    if "\<not> isinstance_list features"
    using assms that by (simp add: verify_input_def)
  have b: "verify_input L model_type path target features tsize (world e)
             = Inl (TypeError ''Features must be a list of strings.'')"
    if "isinstance_list features" "\<not> list_all isinstance_str (list_items features)"
    using assms that by (simp add: verify_input_def)
  have c: "verify_input L model_type path target (PList []) (PFloat r) (world e) = Inr ()"
    if "0 < r" "r < 1"
    using assms that by (simp add: verify_input_valid)
  have d: "\<not> isl (fst (init L path model_type target (PList []) (PFloat r) kws e))"
    if "0 < r" "r < 1" "map_of kws ''kwargs'' = Some (PDict d)"
      "read_csv L path (world e) = Inr ds"
      "getitem_frame L ds (PList []) = Inr x"
      "getitem_series L ds target = Inr y"
      "train_test_split L x y (PFloat r) (PInt 42) (world e) = (Inr (xtr, xte, ytr, yte), w1)"
      "initialize_model L model_type d = Inr c"
    using init_steps [OF c [OF that(1,2)] that(3-8)] by simp
  have a': "init L path model_type target features tsize kws e
              = (Inl (TypeError ''Features must be a list.''), e)"
    if "\<not> isinstance_list features"
    using a [OF that] by (simp add: init_def)
  have b': "init L path model_type target features tsize kws e
              = (Inl (TypeError ''Features must be a list of strings.''), e)"
    if "isinstance_list features" "\<not> list_all isinstance_str (list_items features)"
    using b [OF that] by (simp add: init_def)
  from a a' b b' c d show ?thesis by blast
qed

theorem verify_input_features_witness:
  "PStr ''SVM'' \<in> set (map PStr VALID_MODELS)
   \<and> isfile demo_library ''training.csv'' (world demo_env)
   \<and> isinstance_str (PStr ''label'')
   \<and> verify_input demo_library (PStr ''SVM'') ''training.csv'' (PStr ''label'')
        (PStr ''alti'') (PFloat (1 / 5)) (world demo_env)
      = Inl (TypeError ''Features must be a list.'')
   \<and> verify_input demo_library (PStr ''SVM'') ''training.csv'' (PStr ''label'')
        (PList [PStr ''alti'', PInt 3]) (PFloat (1 / 5)) (world demo_env)
      = Inl (TypeError ''Features must be a list of strings.'')
   \<and> verify_input demo_library (PStr ''SVM'') ''training.csv'' (PStr ''label'')
        (PList []) (PFloat (1 / 5)) (world demo_env) = Inr ()"
  using verify_input_features [of "PStr ''SVM''" demo_library "''training.csv''" demo_env
      "PStr ''label''" "PStr ''alti''" "PFloat (1 / 5)" "[]" "1 / 5"]
    verify_input_features [of "PStr ''SVM''" demo_library "''training.csv''" demo_env
      "PStr ''label''" "PList [PStr ''alti'', PInt 3]" "PFloat (1 / 5)" "[]" "1 / 5"]
  by (simp add: VALID_MODELS_def demo_defs)

text \<open>
  Claim C6 as stated fails: with an empty list of features validation passes and the
  constructor returns an instance, its feature frames holding rows of no columns.
\<close>

theorem verify_input_features_counterexample:
  "verify_input demo_library (PStr ''RandomForest'') ''training.csv'' (PStr ''label'')
     (PList []) (PFloat (1 / 5)) (world demo_env) = Inr ()
   \<and> init demo_library ''training.csv'' (PStr ''RandomForest'') (PStr ''label'')
       (PList []) (PFloat (1 / 5)) [(''kwargs'', PDict [])] demo_env
     = (Inr (demo_fresh\<lparr>features_list := PList [],
                         x_train := [[], [], [], []], x_test := [[]]\<rparr>), demo_env)"
  by (simp add: init_def verify_input_def VALID_MODELS_def load_dataset_def
      preprocess_data_def initialize_model_def Let_def demo_defs)

section \<open>Evaluation\<close>

lemma demo_evaluate:
  "evaluate_model demo_library (PBool False) (demo_fitted, demo_env)
   = (Inr [(''correct'', 0), (''support'', 1)],
      (demo_fitted\<lparr>report := Some [(''correct'', 0), (''support'', 1)]\<rparr>, demo_env))"
  by (simp add: evaluate_model_def demo_defs)

text \<open>
  Claim C3, as amended. \<open>evaluate_model\<close> does not check the type of its flag. The
  flag is the keyword-only parameter \<open>plot\<close>; the report is printed exactly when
  \<open>plot\<close> is the boolean \<open>True\<close>, and with any other value, boolean or not, the call
  does what it does with \<open>plot=False\<close> and raises no type error. A call that names
  another keyword, as the test's \<open>show=2\<close> does, fails with \<open>TypeError\<close> when the
  arguments are bound, whatever the value, and changes nothing.

  Printing is read off \<open>stdout\<close>: with a flag other than \<open>True\<close> nothing is written;
  with \<open>True\<close> the text report of the true test labels against the prediction in use
  (the stored one, or the one the fallback obtains) is written as one more line, and when
  the library fails to build that text its error is raised and nothing is written.
\<close>

theorem evaluate_model_flag:
  "(plot \<noteq> PBool True \<longrightarrow> evaluate_model L plot s = evaluate_model L (PBool False) s)
   \<and> evaluate_model_call L [] [(''plot'', plot)] s = evaluate_model L plot s
   \<and> (k \<noteq> ''plot'' \<longrightarrow>
        is_TypeError (fst (evaluate_model_call L [] [(k, v)] s))
      \<and> snd (evaluate_model_call L [] [(k, v)] s) = s)
   \<and> (plot \<noteq> PBool True \<longrightarrow>
        stdout (snd (snd (evaluate_model L plot s))) = stdout (snd s))
   \<and> (plot = PBool True
        \<and> (y_pred (fst s) = Some p
            \<or> y_pred (fst s) = None
              \<and> fst (clf_predict L (model (fst s)) (x_test (fst s)) (world (snd s))) = Inr p)
        \<and> classification_report_text L (y_test (fst s)) p = Inr txt \<longrightarrow>
        stdout (snd (snd (evaluate_model L plot s))) = stdout (snd s) @ [txt])
   \<and> (plot = PBool True
        \<and> (y_pred (fst s) = Some p
            \<or> y_pred (fst s) = None
              \<and> fst (clf_predict L (model (fst s)) (x_test (fst s)) (world (snd s))) = Inr p)
        \<and> classification_report_text L (y_test (fst s)) p = Inl err \<longrightarrow>
        fst (evaluate_model L plot s) = Inl err
      \<and> stdout (snd (snd (evaluate_model L plot s))) = stdout (snd s))"
proof -
  obtain m e where s: "s = (m, e)" by (cases s)
  obtain r1 w1 where c: "clf_predict L (model m) (x_test m) (world e) = (r1, w1)"
    by (cases "clf_predict L (model m) (x_test m) (world e)")
  have same: "evaluate_model L plot s = evaluate_model L (PBool False) s" if "plot \<noteq> PBool True"
  proof -
    from that have "(plot = PBool True) = (PBool False = PBool True)" by simp
    then show ?thesis unfolding evaluate_model_def by (simp only:)
  qed
  have call: "evaluate_model_call L [] [(''plot'', plot)] s = evaluate_model L plot s"
    by (simp add: evaluate_model_call_def)
  have other: "is_TypeError (fst (evaluate_model_call L [] [(k, v)] s))
      \<and> snd (evaluate_model_call L [] [(k, v)] s) = s" if "k \<noteq> ''plot''"
    using that by (simp add: evaluate_model_call_def)
  have silent: "stdout (snd (snd (evaluate_model L plot s))) = stdout (snd s)"
    if "plot \<noteq> PBool True"
    using that s c
    by (cases r1) (auto simp: evaluate_model_def Let_def split: option.splits sum.splits)
  have used: "(y_pred m = Some p \<or> y_pred m = None \<and> r1 = Inr p)"
    if "y_pred (fst s) = Some p
        \<or> y_pred (fst s) = None
          \<and> fst (clf_predict L (model (fst s)) (x_test (fst s)) (world (snd s))) = Inr p"
    using that s c by auto
  have prints: "stdout (snd (snd (evaluate_model L plot s))) = stdout (snd s) @ [txt]"
    if "plot = PBool True"
      and "y_pred (fst s) = Some p
        \<or> y_pred (fst s) = None
          \<and> fst (clf_predict L (model (fst s)) (x_test (fst s)) (world (snd s))) = Inr p"
      and "classification_report_text L (y_test (fst s)) p = Inr txt"
    using that(1,3) used [OF that(2)] s c
    by (auto simp: evaluate_model_def Let_def split: sum.splits)
  have fails: "fst (evaluate_model L plot s) = Inl err
      \<and> stdout (snd (snd (evaluate_model L plot s))) = stdout (snd s)"
    if "plot = PBool True"
      and "y_pred (fst s) = Some p
        \<or> y_pred (fst s) = None
          \<and> fst (clf_predict L (model (fst s)) (x_test (fst s)) (world (snd s))) = Inr p"
      and "classification_report_text L (y_test (fst s)) p = Inl err"
    using that(1,3) used [OF that(2)] s c
    by (auto simp: evaluate_model_def Let_def)
  show ?thesis
    apply (intro conjI impI)
    subgoal by (rule same)
    subgoal by (rule call)
    subgoal using other by blast
    subgoal using other by blast
    subgoal by (rule silent)
    subgoal by (elim conjE, rule prints)
    subgoal using fails by blast
    subgoal using fails by blast
    done
qed

theorem evaluate_model_flag_witness:
  "PInt 2 \<noteq> PBool True
   \<and> evaluate_model demo_library (PInt 2) (demo_fitted, demo_env)
     = (Inr [(''correct'', 0), (''support'', 1)],
        (demo_fitted\<lparr>report := Some [(''correct'', 0), (''support'', 1)]\<rparr>, demo_env))
   \<and> ''show'' \<noteq> ''plot''
   \<and> is_TypeError (fst (evaluate_model_call demo_library [] [(''show'', PInt 2)] (demo_fitted, demo_env)))
   \<and> is_TypeError (fst (evaluate_model_call demo_library [] [(''show'', PBool True)] (demo_fitted, demo_env)))
   \<and> stdout (snd (snd (evaluate_model demo_library (PInt 2) (demo_fitted, demo_env)))) = []
   \<and> y_pred (fst (demo_fitted, demo_env)) = Some [0]
   \<and> classification_report_text demo_library (y_test (fst (demo_fitted, demo_env))) [0]
       = Inr ''precision recall f1-score support''
   \<and> stdout (snd (snd (evaluate_model demo_library (PBool True) (demo_fitted, demo_env))))
       = [''precision recall f1-score support'']"
proof -
  have n: "PInt 2 \<noteq> PBool True" and k: "''show'' \<noteq> ''plot''" by simp_all
  have y: "y_pred (fst (demo_fitted, demo_env)) = Some [0]" by (simp add: demo_defs)
  have t: "classification_report_text demo_library (y_test (fst (demo_fitted, demo_env))) [0]
       = Inr ''precision recall f1-score support''"
    by (simp add: demo_defs)
  have o: "stdout (snd (demo_fitted, demo_env)) = []" by (simp add: demo_defs)
  note h2 = evaluate_model_flag [of "PInt 2" demo_library "(demo_fitted, demo_env)" "''show''" "PInt 2"]
  note hT = evaluate_model_flag [of "PBool True" demo_library "(demo_fitted, demo_env)" "''show''"
      "PBool True" "[0]" "''precision recall f1-score support''"]
  from h2 n have "evaluate_model demo_library (PInt 2) (demo_fitted, demo_env)
      = evaluate_model demo_library (PBool False) (demo_fitted, demo_env)"
    by blast
  with demo_evaluate have a: "evaluate_model demo_library (PInt 2) (demo_fitted, demo_env)
     = (Inr [(''correct'', 0), (''support'', 1)],
        (demo_fitted\<lparr>report := Some [(''correct'', 0), (''support'', 1)]\<rparr>, demo_env))"
    by simp
  from h2 k have b: "is_TypeError (fst (evaluate_model_call demo_library [] [(''show'', PInt 2)]
      (demo_fitted, demo_env)))"
    by blast
  from hT k have c: "is_TypeError (fst (evaluate_model_call demo_library [] [(''show'', PBool True)]
      (demo_fitted, demo_env)))"
    by blast
  from h2 n have "stdout (snd (snd (evaluate_model demo_library (PInt 2) (demo_fitted, demo_env))))
      = stdout (snd (demo_fitted, demo_env))"
    by blast
  with o have d: "stdout (snd (snd (evaluate_model demo_library (PInt 2) (demo_fitted, demo_env)))) = []"
    by simp
  from hT y t
  have "stdout (snd (snd (evaluate_model demo_library (PBool True) (demo_fitted, demo_env))))
      = stdout (snd (demo_fitted, demo_env)) @ [''precision recall f1-score support'']"
    by blast
  with o have p: "stdout (snd (snd (evaluate_model demo_library (PBool True) (demo_fitted, demo_env))))
      = [''precision recall f1-score support'']"
    by simp
  from n a k b c d y t p show ?thesis by (intro conjI)
qed

text \<open>
  Claim C3 as stated fails: the integer 2 as the flag raises nothing, and the report
  comes back.
\<close>

theorem evaluate_model_flag_counterexample:
  "evaluate_model_call demo_library [] [(''plot'', PInt 2)] (demo_fitted, demo_env)
   = (Inr [(''correct'', 0), (''support'', 1)],
      (demo_fitted\<lparr>report := Some [(''correct'', 0), (''support'', 1)]\<rparr>, demo_env))
   \<and> \<not> is_TypeError (fst (evaluate_model_call demo_library [] [(''plot'', PInt 2)]
                              (demo_fitted, demo_env)))"
  by (simp add: evaluate_model_call_def evaluate_model_def demo_defs)



section \<open>Prediction\<close>

lemma predict_model_unchanged:
  "\<exists>lp. fst (snd (predict L data (m, e))) = m\<lparr>last_prediction := lp\<rparr>"
proof (cases "clf_predict L (model m) data (world e)")
  case (Pair r1 w1)
  show ?thesis
  proof (cases r1)
    case (Inl err)
    with Pair have "fst (snd (predict L data (m, e))) = m\<lparr>last_prediction := last_prediction m\<rparr>"
      by (simp add: predict_def)
    then show ?thesis by blast
  next
    case (Inr p1)
    with Pair have "fst (snd (predict L data (m, e))) = m\<lparr>last_prediction := Some p1\<rparr>"
      by (cases "clf_predict L (model m) data w1") (auto simp: predict_def Let_def split: sum.splits)
    then show ?thesis by blast
  qed
qed

lemma predict_outcome_world:
  assumes "predict_deterministic L"
  shows "fst (predict L data (m, e)) = fst (clf_predict L (model m) data w)"
proof -
  obtain r1 w1 where c1: "clf_predict L (model m) data (world e) = (r1, w1)"
    by (cases "clf_predict L (model m) data (world e)")
  obtain r2 w2 where c2: "clf_predict L (model m) data w1 = (r2, w2)"
    by (cases "clf_predict L (model m) data w1")
  obtain r3 w3 where c3: "clf_predict L (model m) data w = (r3, w3)"
    by (cases "clf_predict L (model m) data w")
  from assms have "fst (clf_predict L (model m) data (world e)) = fst (clf_predict L (model m) data w)"
    and "fst (clf_predict L (model m) data w1) = fst (clf_predict L (model m) data w)"
    unfolding predict_deterministic_def by blast+
  with c1 c2 c3 have r: "r1 = r3" "r2 = r3" by simp_all
  show ?thesis
    unfolding predict_def using c1 c2 c3 r by (cases r3) (simp_all add: Let_def)
qed

text \<open>
  Claim C9. \<open>predict\<close> asks the classifier twice, once for the cache and once for the
  value it returns. When the classifier's outcome does not depend on the state of the
  world, a vector that \<open>predict\<close> returns is the one left in \<open>last_prediction\<close>.
\<close>

theorem predict_returns_cached:
  assumes "predict_deterministic L"
    and "fst (predict L data (m, e)) = Inr v"
  shows "last_prediction (fst (snd (predict L data (m, e)))) = Some v"
proof -
  obtain r1 w1 where c1: "clf_predict L (model m) data (world e) = (r1, w1)"
    by (cases "clf_predict L (model m) data (world e)")
  obtain r2 w2 where c2: "clf_predict L (model m) data w1 = (r2, w2)"
    by (cases "clf_predict L (model m) data w1")
  from assms(1) have "fst (clf_predict L (model m) data w1) = fst (clf_predict L (model m) data (world e))"
    unfolding predict_deterministic_def by blast
  with c1 c2 have same: "r2 = r1" by simp
  from assms(2) c1 c2 same show ?thesis
    by (cases r1) (simp_all add: predict_def Let_def)
qed

lemma demo_predict_deterministic: "predict_deterministic demo_library"
proof -
  have "fst (demo_predict c data w) = fst (demo_predict c data w')" for c data w w'
    by (cases "(c, data, w)" rule: demo_predict.cases) auto
  then show ?thesis by (simp add: predict_deterministic_def demo_library_def)
qed

theorem predict_returns_cached_witness:
  "predict_deterministic demo_library
   \<and> fst (predict demo_library [[7, 7], [8, 8]] (demo_fitted, demo_env)) = Inr [0, 0]
   \<and> last_prediction (fst (snd (predict demo_library [[7, 7], [8, 8]] (demo_fitted, demo_env))))
       = Some [0, 0]"
proof -
  have r: "fst (predict demo_library [[7, 7], [8, 8]] (demo_fitted, demo_env)) = Inr [0, 0]"
    by (simp add: predict_def Let_def demo_defs)
  from predict_returns_cached [OF demo_predict_deterministic r] demo_predict_deterministic r
  show ?thesis by simp
qed

text \<open>
  The condition on the classifier is needed: with a classifier that answers from the
  state of the world, the vector returned differs from the one cached.
\<close>

lemma predict_cache_needs_determinism:
  "fst (predict flaky_library [[7, 7]] (demo_fitted, demo_env)) = Inr [1]
   \<and> last_prediction (fst (snd (predict flaky_library [[7, 7]] (demo_fitted, demo_env)))) = Some [0]"
  by (simp add: predict_def Let_def flaky_library_def demo_defs)

lemma setup_model_success:
  assumes "setup_model L kws (m0, e0) = (Inr u, (m, e))"
  shows "\<exists>p w. y_pred m = Some p
              \<and> clf_predict L (model m) (x_test m) w = (Inr p, world e)
              \<and> x_test m = x_test m0 \<and> y_test m = y_test m0"
  using assms
  by (auto simp: setup_model_def Let_def split: if_splits sum.splits prod.splits)

text \<open>
  Claim C10. \<open>predict\<close> changes no attribute of the instance other than
  \<open>last_prediction\<close>: the test-split prediction \<open>y_pred\<close>, the report and the
  classifier stay. After a successful \<open>setup\<close> the instance holds in \<open>y_pred\<close> the
  prediction of the fitted classifier on the test split, and a following
  \<open>evaluate_model\<close> on an instance that holds a test-split prediction returns, after a
  \<open>predict\<close> on other data, what it would have returned before it; without printing,
  that is the report of the true test labels against the stored \<open>y_pred\<close>.
\<close>

theorem predict_changes_only_cache:
  "(\<exists>lp. fst (snd (predict L data (m, e))) = m\<lparr>last_prediction := lp\<rparr>)
   \<and> y_pred (fst (snd (predict L data (m, e)))) = y_pred m
   \<and> report (fst (snd (predict L data (m, e)))) = report m
   \<and> model (fst (snd (predict L data (m, e)))) = model m
   \<and> (setup_model L kws s0 = (Inr (), (m, e)) \<longrightarrow>
        (\<exists>p w. y_pred m = Some p \<and> clf_predict L (model m) (x_test m) w = (Inr p, world e)))
   \<and> (\<forall>p. y_pred m = Some p \<longrightarrow>
         fst (evaluate_model L plot (snd (predict L data (m, e)))) = fst (evaluate_model L plot (m, e))
       \<and> (plot \<noteq> PBool True \<longrightarrow>
            fst (evaluate_model L plot (snd (predict L data (m, e))))
              = classification_report_dict L (y_test m) p))"
proof -
  obtain lp where lp: "fst (snd (predict L data (m, e))) = m\<lparr>last_prediction := lp\<rparr>"
    using predict_model_unchanged [of L data m e] by blast
  then obtain e' where e': "snd (predict L data (m, e)) = (m\<lparr>last_prediction := lp\<rparr>, e')"
    by (cases "snd (predict L data (m, e))") simp
  have ev: "fst (evaluate_model L plot (m\<lparr>last_prediction := lp\<rparr>, e')) = fst (evaluate_model L plot (m, e))"
    if "y_pred m = Some p" for p
    using that by (auto simp: evaluate_model_def split: sum.splits)
  have ev2: "fst (evaluate_model L plot (m\<lparr>last_prediction := lp\<rparr>, e'))
      = classification_report_dict L (y_test m) p"
    if "y_pred m = Some p" "plot \<noteq> PBool True" for p
    using that by (auto simp: evaluate_model_def split: sum.splits)
  have a: "\<exists>lp. fst (snd (predict L data (m, e))) = m\<lparr>last_prediction := lp\<rparr>"
    using lp by blast
  have b: "y_pred (fst (snd (predict L data (m, e)))) = y_pred m"
    and c: "report (fst (snd (predict L data (m, e)))) = report m"
    and d: "model (fst (snd (predict L data (m, e)))) = model m"
    by (simp_all add: lp)
  have f: "\<exists>p w. y_pred m = Some p \<and> clf_predict L (model m) (x_test m) w = (Inr p, world e)"
    if "setup_model L kws s0 = (Inr (), (m, e))"
    using setup_model_success [of L kws "fst s0" "snd s0" "()" m e] that by auto
  show ?thesis
    apply (intro conjI impI allI)
    subgoal by (rule a)
    subgoal by (rule b)
    subgoal by (rule c)
    subgoal by (rule d)
    subgoal by (rule f)
    subgoal unfolding e' by (rule ev)
    subgoal unfolding e' by (rule ev2)
    done
qed

theorem predict_changes_only_cache_witness:
  "setup_model demo_library demo_kwargs (demo_fresh, demo_env)
     = (Inr (), (demo_fitted, demo_env\<lparr>world := 1\<rparr>))
   \<and> y_pred demo_fitted = Some [0]
   \<and> PBool False \<noteq> PBool True
   \<and> y_pred (fst (snd (predict demo_library [[7, 7], [8, 8]]
                          (demo_fitted, demo_env\<lparr>world := 1\<rparr>)))) = Some [0]
   \<and> fst (evaluate_model demo_library (PBool False)
            (snd (predict demo_library [[7, 7], [8, 8]] (demo_fitted, demo_env\<lparr>world := 1\<rparr>))))
       = Inr [(''correct'', 0), (''support'', 1)]
   \<and> last_prediction (fst (snd (predict demo_library [[7, 7], [8, 8]]
                                   (demo_fitted, demo_env\<lparr>world := 1\<rparr>))))
       = Some [0, 0]"
proof -
  have y: "y_pred demo_fitted = Some [0]" by (simp add: demo_defs)
  have f: "PBool False \<noteq> PBool True" by simp
  have r: "classification_report_dict demo_library (y_test demo_fitted) [0]
       = Inr [(''correct'', 0), (''support'', 1)]"
    by (simp add: demo_defs)
  have l: "last_prediction (fst (snd (predict demo_library [[7, 7], [8, 8]]
             (demo_fitted, demo_env\<lparr>world := 1\<rparr>))))
       = Some [0, 0]"
    by (simp add: predict_def Let_def demo_defs)
  note h = predict_changes_only_cache [of demo_library "[[7, 7], [8, 8]]" demo_fitted
      "demo_env\<lparr>world := 1\<rparr>" demo_kwargs "(demo_fresh, demo_env)" "PBool False"]
  from h y have a: "y_pred (fst (snd (predict demo_library [[7, 7], [8, 8]]
      (demo_fitted, demo_env\<lparr>world := 1\<rparr>)))) = Some [0]"
    by simp
  from h y f have "fst (evaluate_model demo_library (PBool False)
            (snd (predict demo_library [[7, 7], [8, 8]] (demo_fitted, demo_env\<lparr>world := 1\<rparr>))))
       = classification_report_dict demo_library (y_test demo_fitted) [0]"
    by blast
  with r have b: "fst (evaluate_model demo_library (PBool False)
            (snd (predict demo_library [[7, 7], [8, 8]] (demo_fitted, demo_env\<lparr>world := 1\<rparr>))))
       = Inr [(''correct'', 0), (''support'', 1)]"
    by simp
  from demo_setup y f a b l show ?thesis by (intro conjI)
qed


section \<open>Prediction before any reconfiguration\<close>

lemma predict_keeps_model: "model (fst (snd (predict L data s))) = model (fst s)"
proof (cases s)
  case (Pair m e)
  obtain lp where "fst (snd (predict L data (m, e))) = m\<lparr>last_prediction := lp\<rparr>"
    using predict_model_unchanged [of L data m e] by blast
  with Pair show ?thesis by simp
qed

lemma evaluate_model_keeps_model: "model (fst (snd (evaluate_model L plot s))) = model (fst s)"
proof (cases s)
  case (Pair m e)
  then show ?thesis
    by (cases "clf_predict L (model m) (x_test m) (world e)")
      (auto simp: evaluate_model_def Let_def split: option.splits sum.splits)
qed

lemma call_state_keeps_model: "model (fst (call_state L c s)) = model (fst s)"
  by (cases c) (simp_all add: predict_keeps_model evaluate_model_keeps_model)

lemma run_calls_keeps_model: "model (fst (run_calls L cs s)) = model (fst s)"
  by (induction cs arbitrary: s) (simp_all add: call_state_keeps_model)

lemma predict_forwards_error:
  assumes "fst (clf_predict L (model m) data (world e)) = Inl err"
  shows "fst (predict L data (m, e)) = Inl err"
  using assms
  by (cases "clf_predict L (model m) data (world e)") (simp add: predict_def)

text \<open>
  Claim C4. Let the library's classifiers refuse to predict until they are fitted. On an
  instance that the constructor returned and on which \<open>setup\<close> was never called,
  whatever calls of \<open>predict\<close> and \<open>evaluate_model\<close> came before, \<open>predict\<close> fails
  with \<open>NotFittedError\<close> and returns no vector: the classifier is still the one the
  constructor created, and its error is passed on.
\<close>

theorem predict_before_setup_fails:
  assumes "unfit_predict_raises L"
    and "init L path model_type target features tsize kws e0 = (Inr m, e1)"
  shows "fst (predict L data (run_calls L calls (m, e1))) = Inl NotFittedError"
proof -
  obtain d where fresh: "initialize_model L model_type d = Inr (model m)"
    using init_success_steps [OF assms(2)] by blast
  obtain m' e' where s: "run_calls L calls (m, e1) = (m', e')"
    by (cases "run_calls L calls (m, e1)")
  have "model (fst (run_calls L calls (m, e1))) = model (fst (m, e1))"
    by (rule run_calls_keeps_model)
  with s have "model m' = model m" by simp
  with fresh have "initialize_model L model_type d = Inr (model m')" by simp
  with assms(1) have "fst (clf_predict L (model m') data (world e')) = Inl NotFittedError"
    unfolding unfit_predict_raises_def by blast
  then have "fst (predict L data (m', e')) = Inl NotFittedError"
    by (rule predict_forwards_error)
  with s show ?thesis by simp
qed

lemma demo_unfit_predict_raises: "unfit_predict_raises demo_library"
  by (auto simp: unfit_predict_raises_def initialize_model_def demo_library_def demo_new_def
      split: if_splits)

theorem predict_before_setup_fails_witness:
  "unfit_predict_raises demo_library
   \<and> init demo_library ''training.csv'' (PStr ''RandomForest'') (PStr ''label'')
       (PList [PStr ''alti'', PStr ''slope'']) (PFloat (1 / 5)) [(''kwargs'', PDict [])] demo_env
     = (Inr demo_fresh, demo_env)
   \<and> fst (predict demo_library [[7, 7]]
            (run_calls demo_library [EvaluateModel (PBool False), Predict [[1, 1]]]
               (demo_fresh, demo_env)))
     = Inl NotFittedError"
  using predict_before_setup_fails [OF demo_unfit_predict_raises demo_init,
      of "[[7, 7]]" "[EvaluateModel (PBool False), Predict [[1, 1]]]"]
    demo_unfit_predict_raises demo_init
  by (intro conjI)


section \<open>The split is reproducible\<close>

lemma preprocess_data_outcome:
  assumes "seeded_split_deterministic L"
  shows "fst (preprocess_data L ds features target tsize w)
       = fst (preprocess_data L ds features target tsize w')"
  using assms
  by (auto simp: preprocess_data_def seeded_split_deterministic_def split: sum.splits)

lemma init_outcome_world:
  assumes "seeded_split_deterministic L"
    and "isfile L path (world e) = isfile L path (world e')"
    and "read_csv L path (world e) = read_csv L path (world e')"
  shows "fst (init L path model_type target features tsize kws e)
       = fst (init L path model_type target features tsize kws e')"
proof -
  have v: "verify_input L model_type path target features tsize (world e')
         = verify_input L model_type path target features tsize (world e)"
    using assms(2) by (simp add: verify_input_def)
  show ?thesis
  proof (cases "verify_input L model_type path target features tsize (world e)")
    case (Inl err)
    moreover from v Inl
    have "verify_input L model_type path target features tsize (world e') = Inl err"
      by simp
    ultimately show ?thesis by (simp add: init_def)
  next
    case (Inr u)
    from v Inr
    have v': "verify_input L model_type path target features tsize (world e') = Inr u"
      by simp
    show ?thesis
    proof (cases "map_of kws ''kwargs''")
      case None
      with Inr v' show ?thesis by (simp add: init_def)
    next
      case (Some kw)
      show ?thesis
      proof (cases "read_csv L path (world e)")
        case (Inl err)
        with assms(3) have "read_csv L path (world e') = Inl err" by simp
        with Inl Inr v' Some show ?thesis by (simp add: init_def load_dataset_def)
      next
        case ds: (Inr ds)
        with assms(3) have ds': "read_csv L path (world e') = Inr ds" by simp
        obtain r1 w1 where p1: "preprocess_data L ds features target tsize (world e) = (r1, w1)"
          by (cases "preprocess_data L ds features target tsize (world e)")
        obtain r2 w2 where p2: "preprocess_data L ds features target tsize (world e') = (r2, w2)"
          by (cases "preprocess_data L ds features target tsize (world e')")
        from preprocess_data_outcome [OF assms(1), of ds features target tsize "world e" "world e'"]
          p1 p2
        have same: "r2 = r1" by simp
        show ?thesis
        proof (cases r1)
          case (Inl err)
          with Inr v' Some ds ds' p1 p2 same show ?thesis
            by (simp add: init_def load_dataset_def)
        next
          case parts: (Inr parts)
          obtain xtr xte ytr yte where q: "parts = (xtr, xte, ytr, yte)"
            by (cases parts)
          from Inr v' Some ds ds' p1 p2 same parts q show ?thesis
            by (simp add: init_def load_dataset_def split: sum.splits pyval.splits)
        qed
      qed
    qed
  qed
qed

text \<open>
  Claim C5. Let \<open>train_test_split\<close> with an integer seed give an outcome that does not
  depend on the state of the world (the global random generator). Two constructions with
  the same arguments, in two worlds where the path exists alike and the file reads alike,
  either both fail or both succeed, and two instances they return hold the same train and
  test parts: the split is always requested with the seed 42.
\<close>

theorem init_split_deterministic:
  assumes "seeded_split_deterministic L"
    and "isfile L path (world e) = isfile L path (world e')"
    and "read_csv L path (world e) = read_csv L path (world e')"
  shows "isl (fst (init L path model_type target features tsize kws e))
           = isl (fst (init L path model_type target features tsize kws e'))
       \<and> (\<forall>m m'. fst (init L path model_type target features tsize kws e) = Inr m
                \<and> fst (init L path model_type target features tsize kws e') = Inr m'
            \<longrightarrow> x_train m = x_train m' \<and> x_test m = x_test m'
              \<and> y_train m = y_train m' \<and> y_test m = y_test m')"
proof -
  have "fst (init L path model_type target features tsize kws e)
      = fst (init L path model_type target features tsize kws e')"
    using assms by (rule init_outcome_world)
  then show ?thesis by auto
qed

lemma demo_seeded_split_deterministic: "seeded_split_deterministic demo_library"
  by (simp add: seeded_split_deterministic_def demo_library_def demo_train_test_split_def
      Let_def split: pyval.splits)

theorem init_split_deterministic_witness:
  "seeded_split_deterministic demo_library
   \<and> isfile demo_library ''training.csv'' (world demo_env)
       = isfile demo_library ''training.csv'' (world (demo_env\<lparr>world := 7\<rparr>))
   \<and> read_csv demo_library ''training.csv'' (world demo_env)
       = read_csv demo_library ''training.csv'' (world (demo_env\<lparr>world := 7\<rparr>))
   \<and> fst (init demo_library ''training.csv'' (PStr ''RandomForest'') (PStr ''label'')
       (PList [PStr ''alti'', PStr ''slope'']) (PFloat (1 / 5)) [(''kwargs'', PDict [])] demo_env)
     = Inr demo_fresh
   \<and> \<not> isl (fst (init demo_library ''training.csv'' (PStr ''RandomForest'') (PStr ''label'')
       (PList [PStr ''alti'', PStr ''slope'']) (PFloat (1 / 5)) [(''kwargs'', PDict [])]
       (demo_env\<lparr>world := 7\<rparr>)))
   \<and> x_test demo_fresh = [[50, 5]]"
proof -
  have f: "isfile demo_library ''training.csv'' (world demo_env)
       = isfile demo_library ''training.csv'' (world (demo_env\<lparr>world := 7\<rparr>))"
    by (simp add: demo_library_def)
  have r: "read_csv demo_library ''training.csv'' (world demo_env)
       = read_csv demo_library ''training.csv'' (world (demo_env\<lparr>world := 7\<rparr>))"
    by (simp add: demo_library_def)
  have i1: "fst (init demo_library ''training.csv'' (PStr ''RandomForest'') (PStr ''label'')
       (PList [PStr ''alti'', PStr ''slope'']) (PFloat (1 / 5)) [(''kwargs'', PDict [])] demo_env)
     = Inr demo_fresh"
    by (simp add: demo_init)
  note h = init_split_deterministic [OF demo_seeded_split_deterministic f r,
      of "PStr ''RandomForest''" "PStr ''label''" "PList [PStr ''alti'', PStr ''slope'']"
         "PFloat (1 / 5)" "[(''kwargs'', PDict [])]"]
  from h i1 have i2: "\<not> isl (fst (init demo_library ''training.csv'' (PStr ''RandomForest'')
       (PStr ''label'') (PList [PStr ''alti'', PStr ''slope'']) (PFloat (1 / 5))
       [(''kwargs'', PDict [])] (demo_env\<lparr>world := 7\<rparr>)))"
    by simp
  have x: "x_test demo_fresh = [[50, 5]]" by (simp add: demo_defs)
  from demo_seeded_split_deterministic f r i1 i2 x show ?thesis by (intro conjI)
qed

text \<open>
  Without a seed the small library's split follows the world, so the seed is what makes
  the split reproducible.
\<close>

lemma demo_unseeded_split_varies:
  "fst (train_test_split demo_library [[10, 1], [20, 2], [30, 3], [40, 4], [50, 5]]
          [0, 1, 1, 0, 1] (PFloat (1 / 5)) PNone 0)
   \<noteq> fst (train_test_split demo_library [[10, 1], [20, 2], [30, 3], [40, 4], [50, 5]]
          [0, 1, 1, 0, 1] (PFloat (1 / 5)) PNone 1)"
  by (simp add: demo_defs Let_def)


section \<open>The round trip through an archive\<close>

lemma predict_world_independent:
  assumes "predict_deterministic L"
  shows "fst (predict L data (m, e)) = fst (predict L data (m, e'))"
  using predict_outcome_world [OF assms, of data m e "world e"]
    predict_outcome_world [OF assms, of data m e' "world e"]
  by simp

text \<open>
  Claim C8. When saving succeeds, loading the same path gives back the saved instance,
  and with a classifier whose outcome does not depend on the state of the world,
  \<open>predict\<close> on the loaded instance gives for every input the outcome that \<open>predict\<close>
  gives on the instance that was saved.
\<close>

theorem save_load_predict:
  assumes "predict_deterministic L"
    and "save_model path m st = Inr st'"
  shows "load_model path st' = Inr m
       \<and> (\<forall>m'. load_model path st' = Inr m' \<longrightarrow>
             fst (predict L data (m', e')) = fst (predict L data (m, e)))"
proof -
  from assms(2) have st': "st' = st\<lparr>contents := (contents st)(path \<mapsto> Pickled m)\<rparr>"
    by (simp add: save_model_def split: if_splits)
  then have l: "load_model path st' = Inr m"
    by (simp add: load_model_def)
  have "fst (predict L data (m, e')) = fst (predict L data (m, e))"
    using assms(1) by (rule predict_world_independent)
  with l show ?thesis by simp
qed

theorem save_load_predict_witness:
  "predict_deterministic demo_library
   \<and> save_model ''gbm_model.pkl'' demo_fitted \<lparr>contents = (\<lambda>p. None), read_only = []\<rparr>
       = Inr \<lparr>contents = (\<lambda>p. None)(''gbm_model.pkl'' \<mapsto> Pickled demo_fitted), read_only = []\<rparr>
   \<and> load_model ''gbm_model.pkl''
        \<lparr>contents = (\<lambda>p. None)(''gbm_model.pkl'' \<mapsto> Pickled demo_fitted), read_only = []\<rparr>
       = Inr demo_fitted
   \<and> fst (predict demo_library [[7, 7], [8, 8]] (demo_fitted, demo_env\<lparr>world := 3\<rparr>))
       = fst (predict demo_library [[7, 7], [8, 8]] (demo_fitted, demo_env))
   \<and> fst (predict demo_library [[7, 7], [8, 8]] (demo_fitted, demo_env)) = Inr [0, 0]"
proof -
  have s: "save_model ''gbm_model.pkl'' demo_fitted \<lparr>contents = (\<lambda>p. None), read_only = []\<rparr>
       = Inr \<lparr>contents = (\<lambda>p. None)(''gbm_model.pkl'' \<mapsto> Pickled demo_fitted), read_only = []\<rparr>"
    by (simp add: save_model_def)
  have p: "fst (predict demo_library [[7, 7], [8, 8]] (demo_fitted, demo_env)) = Inr [0, 0]"
    by (simp add: predict_def Let_def demo_defs)
  note h = save_load_predict [OF demo_predict_deterministic s,
      of "[[7, 7], [8, 8]]" "demo_env\<lparr>world := 3\<rparr>" demo_env]
  from h have l: "load_model ''gbm_model.pkl''
        \<lparr>contents = (\<lambda>p. None)(''gbm_model.pkl'' \<mapsto> Pickled demo_fitted), read_only = []\<rparr>
       = Inr demo_fitted"
    by (rule conjunct1)
  from h l have q: "fst (predict demo_library [[7, 7], [8, 8]] (demo_fitted, demo_env\<lparr>world := 3\<rparr>))
       = fst (predict demo_library [[7, 7], [8, 8]] (demo_fitted, demo_env))"
    by blast
  from demo_predict_deterministic s l q p show ?thesis by (intro conjI)
qed

end
